theory Spec2Isabelle
  imports Main "HOL-Library.Sublist"
begin

section \<open>The data of build/generate-future-functions.py\<close>

text \<open>
  The script declares three named tuples. Their fields are strings; the second field
  of a \<^verbatim>\<open>typedef\<close> is a string or \<^verbatim>\<open>None\<close>. The field names carry the tuple's name
  as a prefix, since \<^verbatim>\<open>name\<close> is a field of all three and \<^verbatim>\<open>typedef\<close> is reserved.
  Strings are Python 2 byte strings (the script is written for Python 2.6+).
\<close>

record typedef_entry =
  typedef_name :: string
  typedef_typedef :: "string option"

record param =
  param_type_name :: string
  param_name :: string

record future_function =
  fn_ret_type :: string
  fn_name :: string
  fn_params :: "param list"

text \<open>Short constructors, written as the source writes its tuples.\<close>

definition mk_typedef :: "string \<Rightarrow> string option \<Rightarrow> typedef_entry" where
  "mk_typedef n t = \<lparr>typedef_name = n, typedef_typedef = t\<rparr>"

definition mk_param :: "string \<Rightarrow> string \<Rightarrow> param" where
  "mk_param t n = \<lparr>param_type_name = t, param_name = n\<rparr>"

definition mk_future_function :: "string \<Rightarrow> string \<Rightarrow> param list \<Rightarrow> future_function" where
  "mk_future_function r n ps = \<lparr>fn_ret_type = r, fn_name = n, fn_params = ps\<rparr>"

text \<open>Lines 49-67: the registry.\<close>

definition typedef_list :: "typedef_entry list" where
  "typedef_list =
    [mk_typedef ''bool'' None,
     mk_typedef ''bson_error_ptr'' (Some ''bson_error_t *''),
     mk_typedef ''bson_ptr'' (Some ''bson_t *''),
     mk_typedef ''char_ptr'' (Some ''char *''),
     mk_typedef ''char_ptr_ptr'' (Some ''char **''),
     mk_typedef ''const_char_ptr'' (Some ''const char *''),
     mk_typedef ''const_bson_ptr'' (Some ''const bson_t *''),
     mk_typedef ''const_bson_ptr_ptr'' (Some ''const bson_t **''),
     mk_typedef ''const_mongoc_read_prefs_ptr'' (Some ''const mongoc_read_prefs_t *''),
     mk_typedef ''mongoc_bulk_operation_ptr'' (Some ''mongoc_bulk_operation_t *''),
     mk_typedef ''mongoc_client_ptr'' (Some ''mongoc_client_t *''),
     mk_typedef ''mongoc_cursor_ptr'' (Some ''mongoc_cursor_t *''),
     mk_typedef ''mongoc_database_ptr'' (Some ''mongoc_database_t *''),
     mk_typedef ''mongoc_query_flags_t'' None,
     mk_typedef ''uint32_t'' None]"

text \<open>Line 69: \<^verbatim>\<open>type_list = [T.name for T in typedef_list]\<close>.\<close>

definition type_list_of :: "typedef_entry list \<Rightarrow> string list" where
  "type_list_of tds = map typedef_name tds"

definition type_list :: "string list" where
  "type_list = type_list_of typedef_list"

text \<open>Lines 78-108: the operations.\<close>

definition future_functions :: "future_function list" where
  "future_functions =
    [mk_future_function ''uint32_t'' ''bulk_operation_execute''
       [mk_param ''mongoc_bulk_operation_ptr'' ''bulk'',
        mk_param ''bson_ptr'' ''reply'',
        mk_param ''bson_error_ptr'' ''error''],
     mk_future_function ''bool'' ''client_command_simple''
       [mk_param ''mongoc_client_ptr'' ''client'',
        mk_param ''const_char_ptr'' ''db_name'',
        mk_param ''const_bson_ptr'' ''command'',
        mk_param ''const_mongoc_read_prefs_ptr'' ''read_prefs'',
        mk_param ''bson_ptr'' ''reply'',
        mk_param ''bson_error_ptr'' ''error''],
     mk_future_function ''bool'' ''cursor_next''
       [mk_param ''mongoc_cursor_ptr'' ''cursor'',
        mk_param ''const_bson_ptr_ptr'' ''doc''],
     mk_future_function ''char_ptr_ptr'' ''client_get_database_names''
       [mk_param ''mongoc_client_ptr'' ''client'',
        mk_param ''bson_error_ptr'' ''error''],
     mk_future_function ''char_ptr_ptr'' ''database_get_collection_names''
       [mk_param ''mongoc_database_ptr'' ''database'',
        mk_param ''bson_error_ptr'' ''error'']]"

section \<open>The text of the exception\<close>

text \<open>
  Line 114 raises \<^verbatim>\<open>Exception('bad type "%s"\n\nin %s' % (p.type_name, fn))\<close>. The first
  \<^verbatim>\<open>%s\<close> is the string itself; the second is \<^verbatim>\<open>str(fn)\<close>, which for a named tuple is
  its \<^verbatim>\<open>repr\<close>: the tuple's name and every field as \<^verbatim>\<open>field=repr(value)\<close>.

  \<^verbatim>\<open>repr\<close> of a byte string quotes it with \<^verbatim>\<open>'\<close>, or with \<^verbatim>\<open>"\<close> when the string holds
  a \<^verbatim>\<open>'\<close> and no \<^verbatim>\<open>"\<close>; it escapes the quote, the backslash, tab, newline and carriage
  return, and writes every other byte outside 0x20..0x7e as \<^verbatim>\<open>\xhh\<close>.
\<close>

definition dquote :: char where
  "dquote = CHR 0x22"

definition squote :: char where
  "squote = CHR 0x27"

definition backslash :: char where
  "backslash = CHR 0x5C"

definition newline :: char where
  "newline = CHR 0x0A"

definition hex_digit :: "nat \<Rightarrow> char" where
  "hex_digit n = (if n < 10 then char_of (48 + n) else char_of (87 + n))"

definition repr_quote :: "string \<Rightarrow> char" where
  "repr_quote s = (if squote \<in> set s \<and> dquote \<notin> set s then dquote else squote)"

definition repr_char :: "char \<Rightarrow> char \<Rightarrow> string" where
  "repr_char q c =
    (if c = q \<or> c = backslash then [backslash, c]
     else if c = CHR 0x09 then [backslash, CHR ''t'']
     else if c = CHR 0x0A then [backslash, CHR ''n'']
     else if c = CHR 0x0D then [backslash, CHR ''r'']
     else if (of_char c :: nat) < 32 \<or> 127 \<le> (of_char c :: nat)
       then [backslash, CHR ''x'', hex_digit (of_char c div 16), hex_digit (of_char c mod 16)]
     else [c])"

definition repr_str :: "string \<Rightarrow> string" where
  "repr_str s = [repr_quote s] @ concat (map (repr_char (repr_quote s)) s) @ [repr_quote s]"

fun join_comma :: "string list \<Rightarrow> string" where
  "join_comma [] = []"
| "join_comma [x] = x"
| "join_comma (x # y # ys) = x @ '', '' @ join_comma (y # ys)"

definition repr_list :: "string list \<Rightarrow> string" where
  "repr_list xs = ''['' @ join_comma xs @ '']''"

definition repr_param :: "param \<Rightarrow> string" where
  "repr_param p =
     ''param(type_name='' @ repr_str (param_type_name p) @
     '', name='' @ repr_str (param_name p) @ '')''"

definition str_future_function :: "future_function \<Rightarrow> string" where
  "str_future_function f =
     ''future_function(ret_type='' @ repr_str (fn_ret_type f) @
     '', name='' @ repr_str (fn_name f) @
     '', params='' @ repr_list (map repr_param (fn_params f)) @ '')''"

definition bad_type_message :: "string \<Rightarrow> future_function \<Rightarrow> string" where
  "bad_type_message t f =
     ''bad type '' @ [dquote] @ t @ [dquote] @ [newline, newline] @ ''in '' @
     str_future_function f"

datatype py_error = Exception string | IOError string

section \<open>The module's globals and the validation loop\<close>

text \<open>
  The loops of lines 111-114 stand at module level, so their variables \<^verbatim>\<open>fn\<close> and
  \<^verbatim>\<open>p\<close> are globals of the module, unbound (\<open>None\<close>) until the loop first assigns
  them. The lists are read through the globals at every step. The record holds the
  globals the loops and the templates work with; the modules, the tuple classes, the
  directory names and the open file \<^verbatim>\<open>f\<close> are left out.
\<close>

record globals =
  g_typedef_list :: "typedef_entry list"
  g_type_list :: "string list"
  g_future_functions :: "future_function list"
  g_fn :: "future_function option"
  g_p :: "param option"
  g_header_comment :: "string option"
  g_files :: "string list option"
  g_file_name :: "string option"
  g_template :: "string option"

text \<open>
  The inner loop, lines 112-114, over the parameters of \<open>f\<close> (the value of \<^verbatim>\<open>fn\<close>).
  A raise ends the run; the globals at that moment come with the error.
\<close>

fun check_params ::
  "future_function \<Rightarrow> param list \<Rightarrow> globals \<Rightarrow> (py_error + unit) \<times> globals" where
  "check_params f [] g = (Inr (), g)"
| "check_params f (p # ps) g =
     (let g1 = g\<lparr>g_p := Some p\<rparr> in
      if param_type_name p \<notin> set (g_type_list g1)
      then (Inl (Exception (bad_type_message (param_type_name p) f)), g1)
      else check_params f ps g1)"

text \<open>The outer loop, line 111.\<close>

fun check_functions ::
  "future_function list \<Rightarrow> globals \<Rightarrow> (py_error + unit) \<times> globals" where
  "check_functions [] g = (Inr (), g)"
| "check_functions (f # fs) g =
     (let g1 = g\<lparr>g_fn := Some f\<rparr> in
      case check_params f (fn_params f) g1 of
        (Inl e, g2) \<Rightarrow> (Inl e, g2)
      | (Inr u, g2) \<Rightarrow> check_functions fs g2)"

definition validate :: "globals \<Rightarrow> (py_error + unit) \<times> globals" where
  "validate g = check_functions (g_future_functions g) g"

text \<open>The globals as they stand when line 111 is reached, for given lists.\<close>

definition init_globals :: "typedef_entry list \<Rightarrow> future_function list \<Rightarrow> globals" where
  "init_globals tds fns =
     \<lparr>g_typedef_list = tds, g_type_list = type_list_of tds, g_future_functions = fns,
      g_fn = None, g_p = None, g_header_comment = None, g_files = None,
      g_file_name = None, g_template = None\<rparr>"

section \<open>The emission loop and the whole run\<close>

text \<open>
  What the script takes from outside: the directory and the base name of its own file,
  \<^verbatim>\<open>os.path.normpath\<close>, Jinja's \<^verbatim>\<open>Template(t).render(globals())\<close> (a text, or an error
  of the template), and whether a path can be opened for writing. The world is the
  standard output, one entry per \<^verbatim>\<open>print\<close>, and the contents of the files.
\<close>

record env =
  e_this_dir :: string
  e_script_name :: string
  e_normpath :: "string \<Rightarrow> string"
  e_render :: "string \<Rightarrow> globals \<Rightarrow> py_error + string"
  e_can_create :: "string \<Rightarrow> bool"

record world =
  w_stdout :: "string list"
  w_fs :: "string \<rightharpoonup> string"

text \<open>\<^verbatim>\<open>os.path.join\<close> of two components, as posixpath has it.\<close>

definition joinpath :: "string \<Rightarrow> string \<Rightarrow> string" where
  "joinpath a b =
    (if take 1 b = ''/'' then b
     else if a = [] \<or> last a = CHR ''/'' then a @ b
     else a @ ''/'' @ b)"

text \<open>Lines 39-40.\<close>

definition template_dir :: "env \<Rightarrow> string" where
  "template_dir e = joinpath (e_this_dir e) ''future_function_templates''"

definition mock_server_dir :: "env \<Rightarrow> string" where
  "mock_server_dir e = e_normpath e (joinpath (e_this_dir e) ''../tests/mock_server'')"

text \<open>Lines 117-123 and 126-131.\<close>

definition header_comment :: "env \<Rightarrow> string" where
  "header_comment e =
     ''/'' @ replicate 50 (CHR ''*'') @ [newline] @
     '' *'' @ [newline] @
     '' * Generated by build/'' @ e_script_name e @ ''.'' @ [newline] @
     '' *'' @ [newline] @
     '' * DO NOT EDIT THIS FILE.'' @ [newline] @
     '' *'' @ [newline] @
     '' '' @ replicate 49 (CHR ''*'') @ ''/''"

definition files :: "string list" where
  "files = [''future.h'', ''future.c'', ''future-value.h'', ''future-value.c'',
            ''future-functions.h'', ''future-functions.c'']"

text \<open>
  Lines 134-138. Each round prints the name, reads the template (an \<^verbatim>\<open>IOError\<close> when
  it is missing), opens the output with mode \<^verbatim>\<open>w+\<close>, which empties it (an \<^verbatim>\<open>IOError\<close>
  when it cannot be created), then renders and writes. A render that raises leaves the
  output empty.
\<close>

fun emit ::
  "env \<Rightarrow> string list \<Rightarrow> globals \<Rightarrow> world \<Rightarrow> (py_error + unit) \<times> globals \<times> world" where
  "emit e [] g w = (Inr (), g, w)"
| "emit e (file_name # rest) g w =
     (let g1 = g\<lparr>g_file_name := Some file_name\<rparr>;
          w1 = w\<lparr>w_stdout := w_stdout w @ [file_name]\<rparr>;
          src = joinpath (template_dir e) (file_name @ ''.template'');
          dst = joinpath (mock_server_dir e) file_name
      in case w_fs w1 src of
           None \<Rightarrow> (Inl (IOError src), g1, w1)
         | Some template \<Rightarrow>
             (let g2 = g1\<lparr>g_template := Some template\<rparr> in
              if \<not> e_can_create e dst then (Inl (IOError dst), g2, w1)
              else
                (let w2 = w1\<lparr>w_fs := (w_fs w1)(dst \<mapsto> [])\<rparr> in
                 case e_render e template g2 of
                   Inl err \<Rightarrow> (Inl err, g2, w2)
                 | Inr rendered \<Rightarrow>
                     emit e rest g2 (w2\<lparr>w_fs := (w_fs w2)(dst \<mapsto> rendered)\<rparr>))))"

text \<open>
  The module from line 69 on, for a registry and a list of operations: validation, and
  only when it raised nothing, the header comment, the list of files and the emission.
\<close>

definition before_emission :: "env \<Rightarrow> globals \<Rightarrow> globals" where
  "before_emission e g = g\<lparr>g_header_comment := Some (header_comment e), g_files := Some files\<rparr>"

definition generate ::
  "env \<Rightarrow> typedef_entry list \<Rightarrow> future_function list \<Rightarrow> world \<Rightarrow>
   (py_error + unit) \<times> globals \<times> world" where
  "generate e tds fns w =
     (case validate (init_globals tds fns) of
        (Inl err, g1) \<Rightarrow> (Inl err, g1, w)
      | (Inr u, g1) \<Rightarrow> emit e files (before_emission e g1) w)"


text \<open>An exception that nothing catches ends the interpreter with status 1.\<close>

definition exit_status :: "py_error + unit \<Rightarrow> nat" where
  "exit_status r = (case r of Inl err \<Rightarrow> 1 | Inr u \<Rightarrow> 0)"

section \<open>The scan order, in the specification's words\<close>

text \<open>
  Operations in their declared order, each operation's parameters in declared order;
  the first pair of that scan whose parameter kind is not registered.
\<close>

definition scan_order :: "future_function list \<Rightarrow> (future_function \<times> param) list" where
  "scan_order fns = concat (map (\<lambda>f. map (\<lambda>p. (f, p)) (fn_params f)) fns)"

definition first_unregistered ::
  "string list \<Rightarrow> future_function list \<Rightarrow> (future_function \<times> param) option" where
  "first_unregistered reg fns = find (\<lambda>(f, p). param_type_name p \<notin> set reg) (scan_order fns)"

section \<open>Concrete inputs\<close>

text \<open>
  Inputs for the closed instances further down. The environment: the script lies in
  \<^verbatim>\<open>build\<close>, the path of the output directory normalises to \<^verbatim>\<open>tests/mock_server\<close>, a
  template renders to its own text, and every output can be created. Two worlds with
  nothing printed yet: one with no file at all, one where every path holds a file. The
  operation lists are the two scenarios of the specification: an operation with a
  parameter of the unregistered kind \<^verbatim>\<open>frobnicator_ptr\<close>, and a well-formed one; and one
  whose return kind alone is unregistered. The registry \<open>bool_twice\<close> repeats a name,
  the list \<open>same_twice\<close> has two operations of one name with registered kinds, and the
  list \<open>two_bad\<close> has three unregistered parameter kinds, \<^verbatim>\<open>u1\<close> coming first.
\<close>

definition sample_env :: env where
  "sample_env =
     \<lparr>e_this_dir = ''build'', e_script_name = ''generate-future-functions.py'',
      e_normpath = (\<lambda>p. ''tests/mock_server''), e_render = (\<lambda>t g. Inr t),
      e_can_create = (\<lambda>p. True)\<rparr>"

definition empty_world :: world where
  "empty_world = \<lparr>w_stdout = [], w_fs = Map.empty\<rparr>"

definition full_world :: world where
  "full_world = \<lparr>w_stdout = [], w_fs = (\<lambda>p. Some ''template'')\<rparr>"

definition ping_frobnicator :: future_function where
  "ping_frobnicator = mk_future_function ''bool'' ''ping'' [mk_param ''frobnicator_ptr'' ''msg'']"

definition ping_flag :: future_function where
  "ping_flag = mk_future_function ''bool'' ''ping'' [mk_param ''bool'' ''flag'']"

definition collection_count :: future_function where
  "collection_count =
     mk_future_function ''int64_t'' ''collection_count'' [mk_param ''bson_error_ptr'' ''error'']"

definition bool_twice :: "typedef_entry list" where
  "bool_twice = [mk_typedef ''bool'' None, mk_typedef ''bool'' (Some ''int'')]"


definition two_bad :: "future_function list" where
  "two_bad =
     [mk_future_function ''bool'' ''a''
        [mk_param ''bool'' ''x'', mk_param ''u1'' ''y'', mk_param ''u2'' ''z''],
      mk_future_function ''bool'' ''b'' [mk_param ''u3'' ''x'']]"

section \<open>What the loops leave alone\<close>

lemma check_params_frame:
  "check_params f ps g = (r, g') \<Longrightarrow>
     g_typedef_list g' = g_typedef_list g \<and> g_type_list g' = g_type_list g \<and>
     g_future_functions g' = g_future_functions g"
proof (induction ps arbitrary: g)
  case Nil
  then show ?case by simp
next
  case (Cons p ps)
  show ?case
  proof (cases "param_type_name p \<in> set (g_type_list g)")
    case True
    with Cons.prems have "check_params f ps (g\<lparr>g_p := Some p\<rparr>) = (r, g')"
      by (simp add: Let_def)
    from Cons.IH [OF this] show ?thesis by simp
  next
    case False
    with Cons.prems show ?thesis by (auto simp: Let_def)
  qed
qed

lemma check_functions_frame:
  "check_functions fs g = (r, g') \<Longrightarrow>
     g_typedef_list g' = g_typedef_list g \<and> g_type_list g' = g_type_list g \<and>
     g_future_functions g' = g_future_functions g"
proof (induction fs arbitrary: g)
  case Nil
  then show ?case by simp
next
  case (Cons f fs)
  obtain r1 g1 where step: "check_params f (fn_params f) (g\<lparr>g_fn := Some f\<rparr>) = (r1, g1)"
    by (cases "check_params f (fn_params f) (g\<lparr>g_fn := Some f\<rparr>)")
  from check_params_frame [OF step]
  have keep: "g_typedef_list g1 = g_typedef_list g \<and> g_type_list g1 = g_type_list g \<and>
      g_future_functions g1 = g_future_functions g"
    by simp
  show ?case
  proof (cases r1)
    case (Inl err)
    with Cons.prems step have "g' = g1" by (simp add: Let_def)
    with keep show ?thesis by simp
  next
    case (Inr u)
    with Cons.prems step have "check_functions fs g1 = (r, g')" by (simp add: Let_def)
    from Cons.IH [OF this] keep show ?thesis by simp
  qed
qed

lemma emit_frame:
  "emit e fls g w = (r, g', w') \<Longrightarrow>
     g_typedef_list g' = g_typedef_list g \<and> g_type_list g' = g_type_list g \<and>
     g_future_functions g' = g_future_functions g"
proof (induction fls arbitrary: g w)
  case Nil
  then show ?case by simp
next
  case (Cons file_name rest)
  from Cons.prems show ?case
    by (auto simp: Let_def split: option.splits if_splits sum.splits dest!: Cons.IH)
qed

section \<open>The validation loops as a search\<close>

lemma check_params_find:
  "fst (check_params f ps g) =
     (case find (\<lambda>p. param_type_name p \<notin> set (g_type_list g)) ps of
        None \<Rightarrow> Inr ()
      | Some p \<Rightarrow> Inl (Exception (bad_type_message (param_type_name p) f)))"
  by (induction ps arbitrary: g) (simp_all add: Let_def)

lemma find_append_cases:
  "find P (xs @ ys) = (case find P xs of None \<Rightarrow> find P ys | Some x \<Rightarrow> Some x)"
  by (induction xs) simp_all

lemma find_map_pair:
  "find (\<lambda>(f, p). Q p) (map (\<lambda>p. (f0, p)) ps) = map_option (\<lambda>p. (f0, p)) (find Q ps)"
  by (induction ps) simp_all

lemma check_functions_find:
  "fst (check_functions fs g) =
     (case first_unregistered (g_type_list g) fs of
        None \<Rightarrow> Inr ()
      | Some (f, p) \<Rightarrow> Inl (Exception (bad_type_message (param_type_name p) f)))"
proof (induction fs arbitrary: g)
  case Nil
  show ?case by (simp add: first_unregistered_def scan_order_def)
next
  case (Cons f fs)
  let ?g = "g\<lparr>g_fn := Some f\<rparr>"
  obtain r1 g1 where step: "check_params f (fn_params f) ?g = (r1, g1)"
    by (cases "check_params f (fn_params f) ?g")
  from check_params_frame [OF step] have reg: "g_type_list g1 = g_type_list g" by simp
  from check_params_find [of f "fn_params f" ?g] step
  have r1: "r1 = (case find (\<lambda>p. param_type_name p \<notin> set (g_type_list g)) (fn_params f) of
        None \<Rightarrow> Inr ()
      | Some p \<Rightarrow> Inl (Exception (bad_type_message (param_type_name p) f)))"
    by simp
  have split_scan: "first_unregistered (g_type_list g) (f # fs) =
      (case find (\<lambda>p. param_type_name p \<notin> set (g_type_list g)) (fn_params f) of
         None \<Rightarrow> first_unregistered (g_type_list g) fs
       | Some p \<Rightarrow> Some (f, p))"
    by (simp add: first_unregistered_def scan_order_def find_append_cases find_map_pair
        split: option.splits)
  show ?case
  proof (cases "find (\<lambda>p. param_type_name p \<notin> set (g_type_list g)) (fn_params f)")
    case None
    with r1 have "r1 = Inr ()" by simp
    with step have "fst (check_functions (f # fs) g) = fst (check_functions fs g1)"
      by (simp add: Let_def)
    with Cons.IH [of g1] reg split_scan None show ?thesis by simp
  next
    case (Some p)
    with r1 have "r1 = Inl (Exception (bad_type_message (param_type_name p) f))" by simp
    with step have "fst (check_functions (f # fs) g) =
        Inl (Exception (bad_type_message (param_type_name p) f))"
      by (simp add: Let_def)
    with split_scan Some show ?thesis by simp
  qed
qed

lemma generate_frame:
  "g_typedef_list (fst (snd (generate e tds fns w))) = tds \<and>
   g_type_list (fst (snd (generate e tds fns w))) = type_list_of tds \<and>
   g_future_functions (fst (snd (generate e tds fns w))) = fns"
proof -
  let ?g0 = "init_globals tds fns"
  obtain r g1 where v: "validate ?g0 = (r, g1)"
    by (cases "validate ?g0")
  then have "check_functions fns ?g0 = (r, g1)"
    by (simp add: validate_def init_globals_def)
  from check_functions_frame [OF this]
  have keep: "g_typedef_list g1 = tds \<and> g_type_list g1 = type_list_of tds \<and>
      g_future_functions g1 = fns"
    by (simp add: init_globals_def)
  show ?thesis
  proof (cases r)
    case (Inl err)
    with v keep show ?thesis by (simp add: generate_def)
  next
    case (Inr u)
    obtain r2 g2 w2 where em: "emit e files (before_emission e g1) w = (r2, g2, w2)"
      by (cases "emit e files (before_emission e g1) w")
    from emit_frame [OF em] keep
    have "g_typedef_list g2 = tds \<and> g_type_list g2 = type_list_of tds \<and>
        g_future_functions g2 = fns"
      by (simp add: before_emission_def)
    with Inr v em show ?thesis by (simp add: generate_def)
  qed
qed

section \<open>What the message shows\<close>

lemma first_unregistered_SomeD:
  assumes "first_unregistered reg fns = Some (f, p)"
  shows "f \<in> set fns \<and> p \<in> set (fn_params f) \<and> param_type_name p \<notin> set reg"
proof -
  from assms have "(f, p) \<in> set (scan_order fns) \<and> param_type_name p \<notin> set reg"
    by (auto simp: first_unregistered_def find_Some_iff in_set_conv_nth)
  then show ?thesis by (auto simp: scan_order_def)
qed

lemma first_unregistered_None:
  "first_unregistered reg fns = None \<longleftrightarrow>
     (\<forall>f\<in>set fns. \<forall>p\<in>set (fn_params f). param_type_name p \<in> set reg)"
  by (auto simp: first_unregistered_def find_None_iff scan_order_def)

lemma sublist_kind: "sublist t (bad_type_message t f)"
  unfolding bad_type_message_def
  by (rule sublist_appendI [of t "''bad type '' @ [dquote]", simplified append_assoc])

lemma sublist_name: "sublist (repr_str (fn_name f)) (bad_type_message t f)"
proof -
  have "bad_type_message t f =
      (''bad type '' @ [dquote] @ t @ [dquote] @ [newline, newline] @ ''in '' @
       ''future_function(ret_type='' @ repr_str (fn_ret_type f) @ '', name='') @
      repr_str (fn_name f) @
      ('', params='' @ repr_list (map repr_param (fn_params f)) @ '')'')"
    by (simp add: bad_type_message_def str_future_function_def)
  then show ?thesis
    unfolding sublist_def by blast
qed

text \<open>
  For a name of printable characters without \<^verbatim>\<open>'\<close> and backslash, as every identifier
  is, \<^verbatim>\<open>repr\<close> only adds the quotes, so the message holds the name as written.
\<close>

lemma repr_chars_plain:
  assumes "\<forall>c\<in>set s. c \<noteq> q \<and> c \<noteq> backslash \<and> 32 \<le> (of_char c :: nat) \<and> (of_char c :: nat) < 127"
  shows "concat (map (repr_char q) s) = s"
  using assms by (induction s) (auto simp: repr_char_def)

lemma repr_str_plain:
  assumes "\<forall>c\<in>set s. c \<noteq> squote \<and> c \<noteq> backslash \<and> 32 \<le> (of_char c :: nat) \<and> (of_char c :: nat) < 127"
  shows "repr_str s = [squote] @ s @ [squote]"
proof -
  from assms have "squote \<notin> set s" by auto
  then have q: "repr_quote s = squote" by (simp add: repr_quote_def)
  with assms repr_chars_plain [of s squote] show ?thesis
    by (simp add: repr_str_def)
qed

lemma sublist_plain_name:
  assumes "\<forall>c\<in>set (fn_name f). c \<noteq> squote \<and> c \<noteq> backslash \<and>
      32 \<le> (of_char c :: nat) \<and> (of_char c :: nat) < 127"
  shows "sublist (fn_name f) (bad_type_message t f)"
proof -
  from sublist_name [of f t] obtain a b where
    "bad_type_message t f = a @ repr_str (fn_name f) @ b"
    unfolding sublist_def by blast
  with repr_str_plain [OF assms]
  have "bad_type_message t f = (a @ [squote]) @ fn_name f @ ([squote] @ b)"
    by simp
  then show ?thesis
    unfolding sublist_def by blast
qed

lemma prefix_kind:
  "prefix (''bad type '' @ [CHR 0x22] @ t @ [CHR 0x22]) (bad_type_message t f)"
  by (simp add: bad_type_message_def dquote_def)

text \<open>The message for the scenario of the specification, character by character.\<close>

lemma ping_message:
  "bad_type_message ''frobnicator_ptr'' ping_frobnicator =
     ''bad type '' @ [CHR 0x22] @ ''frobnicator_ptr'' @ [CHR 0x22, CHR 0x0A, CHR 0x0A] @
     ''in future_function(ret_type='' @ [CHR 0x27] @ ''bool'' @ [CHR 0x27] @
     '', name='' @ [CHR 0x27] @ ''ping'' @ [CHR 0x27] @
     '', params=[param(type_name='' @ [CHR 0x27] @ ''frobnicator_ptr'' @ [CHR 0x27] @
     '', name='' @ [CHR 0x27] @ ''msg'' @ [CHR 0x27] @ '')])''"
  by (simp add: bad_type_message_def str_future_function_def repr_list_def repr_param_def
      repr_str_def repr_quote_def repr_char_def squote_def dquote_def backslash_def newline_def
      ping_frobnicator_def mk_param_def mk_future_function_def)

section \<open>The claims\<close>

text \<open>
  C10. Validation ends with at most one error, and which one is fixed by the scan:
  operations in their declared order, each operation's parameters in declared order.
  The run succeeds when no parameter kind of that scan is missing from the registry;
  otherwise the error is the one for the first such parameter. Its message starts
  with \<^verbatim>\<open>bad type "K"\<close> for the kind \<open>K\<close> of that first parameter, and holds the
  \<^verbatim>\<open>repr\<close> of the name of the operation it belongs to (the name itself when it is made
  of printable characters other than \<^verbatim>\<open>'\<close> and backslash).
\<close>

theorem validate_first_unregistered:
  "fst (validate g) =
     (case first_unregistered (g_type_list g) (g_future_functions g) of
        None \<Rightarrow> Inr ()
      | Some (f, p) \<Rightarrow> Inl (Exception (bad_type_message (param_type_name p) f))) \<and>
   (\<forall>f p. first_unregistered (g_type_list g) (g_future_functions g) = Some (f, p) \<longrightarrow>
      (\<exists>msg. fst (validate g) = Inl (Exception msg) \<and>
         prefix (''bad type '' @ [CHR 0x22] @ param_type_name p @ [CHR 0x22]) msg \<and>
         sublist (param_type_name p) msg \<and> sublist (repr_str (fn_name f)) msg \<and>
         ((\<forall>c\<in>set (fn_name f). c \<noteq> squote \<and> c \<noteq> backslash \<and>
             32 \<le> (of_char c :: nat) \<and> (of_char c :: nat) < 127) \<longrightarrow>
          sublist (fn_name f) msg)))"
proof -
  have eq: "fst (validate g) =
     (case first_unregistered (g_type_list g) (g_future_functions g) of
        None \<Rightarrow> Inr ()
      | Some (f, p) \<Rightarrow> Inl (Exception (bad_type_message (param_type_name p) f)))"
    unfolding validate_def by (rule check_functions_find)
  show ?thesis
  proof (intro conjI allI impI)
    show "fst (validate g) =
     (case first_unregistered (g_type_list g) (g_future_functions g) of
        None \<Rightarrow> Inr ()
      | Some (f, p) \<Rightarrow> Inl (Exception (bad_type_message (param_type_name p) f)))"
      by (rule eq)
  next
    fix f p
    assume found: "first_unregistered (g_type_list g) (g_future_functions g) = Some (f, p)"
    with eq have "fst (validate g) = Inl (Exception (bad_type_message (param_type_name p) f))"
      by simp
    with prefix_kind [of "param_type_name p" f] sublist_kind [of "param_type_name p" f]
      sublist_name [of f "param_type_name p"] sublist_plain_name [of f "param_type_name p"]
    show "\<exists>msg. fst (validate g) = Inl (Exception msg) \<and>
         prefix (''bad type '' @ [CHR 0x22] @ param_type_name p @ [CHR 0x22]) msg \<and>
         sublist (param_type_name p) msg \<and> sublist (repr_str (fn_name f)) msg \<and>
         ((\<forall>c\<in>set (fn_name f). c \<noteq> squote \<and> c \<noteq> backslash \<and>
             32 \<le> (of_char c :: nat) \<and> (of_char c :: nat) < 127) \<longrightarrow>
          sublist (fn_name f) msg)"
      by blast
  qed
qed

theorem validate_first_unregistered_witness:
  "first_unregistered (g_type_list (init_globals [mk_typedef ''bool'' None] two_bad))
     (g_future_functions (init_globals [mk_typedef ''bool'' None] two_bad)) =
     Some (mk_future_function ''bool'' ''a''
        [mk_param ''bool'' ''x'', mk_param ''u1'' ''y'', mk_param ''u2'' ''z''],
        mk_param ''u1'' ''y'') \<and>
   fst (validate (init_globals [mk_typedef ''bool'' None] two_bad)) =
     Inl (Exception
       (''bad type '' @ [CHR 0x22] @ ''u1'' @ [CHR 0x22, CHR 0x0A, CHR 0x0A] @
        ''in future_function(ret_type='' @ [CHR 0x27] @ ''bool'' @ [CHR 0x27] @
        '', name='' @ [CHR 0x27] @ ''a'' @ [CHR 0x27] @
        '', params=[param(type_name='' @ [CHR 0x27] @ ''bool'' @ [CHR 0x27] @
        '', name='' @ [CHR 0x27] @ ''x'' @ [CHR 0x27] @
        ''), param(type_name='' @ [CHR 0x27] @ ''u1'' @ [CHR 0x27] @
        '', name='' @ [CHR 0x27] @ ''y'' @ [CHR 0x27] @
        ''), param(type_name='' @ [CHR 0x27] @ ''u2'' @ [CHR 0x27] @
        '', name='' @ [CHR 0x27] @ ''z'' @ [CHR 0x27] @ '')])''))"
  using validate_first_unregistered [of "init_globals [mk_typedef ''bool'' None] two_bad"]
  by (simp add: init_globals_def type_list_of_def mk_typedef_def mk_param_def
      mk_future_function_def first_unregistered_def scan_order_def two_bad_def
      bad_type_message_def str_future_function_def repr_list_def repr_param_def
      repr_str_def repr_quote_def repr_char_def squote_def dquote_def backslash_def newline_def)

text \<open>
  C9. The outcome of validation (success, or the exception with its exact message)
  depends on the registry only through the names of its entries: two registries with
  the same names in the same order, whatever their representation fields, give the
  same outcome for every list of operations.
\<close>

theorem validate_names_only:
  assumes "map typedef_name tds = map typedef_name tds'"
  shows "fst (validate (init_globals tds fns)) = fst (validate (init_globals tds' fns))"
  using assms
  by (simp add: validate_def check_functions_find init_globals_def type_list_of_def)

theorem validate_names_only_witness:
  "fst (validate (init_globals [mk_typedef ''bool'' None, mk_typedef ''bson_ptr'' (Some ''bson_t *'')]
      [mk_future_function ''bool'' ''ping'' [mk_param ''char_ptr'' ''msg'']])) =
   fst (validate (init_globals [mk_typedef ''bool'' (Some ''int''), mk_typedef ''bson_ptr'' None]
      [mk_future_function ''bool'' ''ping'' [mk_param ''char_ptr'' ''msg'']]))"
  using validate_names_only [of "[mk_typedef ''bool'' None, mk_typedef ''bson_ptr'' (Some ''bson_t *'')]"
      "[mk_typedef ''bool'' (Some ''int''), mk_typedef ''bson_ptr'' None]"]
  by (simp add: mk_typedef_def)

text \<open>
  C8. The registry and the operations are in place before the first operation is
  looked at, and neither validation nor generation changes them: after the validation
  pass, whether it succeeded or raised, the registry, the list of its names and the
  list of operations are what they were before; and at the end of the whole run the
  globals still hold the registry and the operations the run started with. (The
  rendering of a template is taken as a function of the globals.)
\<close>

theorem validation_keeps_lists:
  "g_typedef_list (snd (validate g)) = g_typedef_list g \<and>
   g_type_list (snd (validate g)) = g_type_list g \<and>
   g_future_functions (snd (validate g)) = g_future_functions g \<and>
   g_typedef_list (fst (snd (generate e tds fns w))) = tds \<and>
   g_future_functions (fst (snd (generate e tds fns w))) = fns"
proof -
  have "check_functions (g_future_functions g) g = (fst (validate g), snd (validate g))"
    by (simp add: validate_def)
  from check_functions_frame [OF this] generate_frame [of e tds fns w]
  show ?thesis by simp
qed




text \<open>
  C2. When validation fails, the run ends with that error and the world is as it was:
  nothing has been printed and no file has been opened, emptied or written. Put the
  other way round, a run that changed the world at all is one whose validation went
  through every operation without an error.
\<close>

theorem validation_failure_no_output:
  "(fst (validate (init_globals tds fns)) = Inl err \<longrightarrow>
      fst (generate e tds fns w) = Inl err \<and> snd (snd (generate e tds fns w)) = w) \<and>
   (snd (snd (generate e tds fns w)) \<noteq> w \<longrightarrow>
      fst (validate (init_globals tds fns)) = Inr ())"
proof -
  obtain r g1 where v: "validate (init_globals tds fns) = (r, g1)"
    by (cases "validate (init_globals tds fns)")
  show ?thesis
  proof (cases r)
    case (Inl e1)
    with v show ?thesis by (simp add: generate_def)
  next
    case (Inr u)
    with v show ?thesis by (simp add: generate_def)
  qed
qed

theorem validation_failure_no_output_witness:
  "fst (generate sample_env typedef_list [ping_frobnicator] empty_world) =
     Inl (Exception (bad_type_message ''frobnicator_ptr'' ping_frobnicator)) \<and>
   snd (snd (generate sample_env typedef_list [ping_frobnicator] empty_world)) = empty_world \<and>
   fst (validate (init_globals typedef_list future_functions)) = Inr ()"
  using validation_failure_no_output [of typedef_list "[ping_frobnicator]"
      "Exception (bad_type_message ''frobnicator_ptr'' ping_frobnicator)" sample_env empty_world]
    validation_failure_no_output [of typedef_list future_functions undefined sample_env
      empty_world]
  by (simp add: validate_def generate_def init_globals_def type_list_of_def typedef_list_def
      future_functions_def mk_typedef_def mk_param_def mk_future_function_def
      before_emission_def files_def template_dir_def mock_server_dir_def joinpath_def Let_def
      sample_env_def empty_world_def ping_frobnicator_def)

text \<open>
  C3. Whenever some operation of the list has a parameter whose kind is not
  registered, the run ends with an exception (so with exit status 1, and with the
  world untouched), and the exception's message is the one for an operation of the
  list and a parameter of it whose kind is unregistered: it holds that kind, as
  written, and the \<^verbatim>\<open>repr\<close> of that operation, which holds the \<^verbatim>\<open>repr\<close> of its name;
  when the name is made of printable characters other than \<^verbatim>\<open>'\<close> and backslash, as
  an identifier is, the message holds the name as written. The kinds validation looks
  at are the parameters' kinds.
\<close>

theorem unregistered_param_halts:
  assumes "f \<in> set fns" and "p \<in> set (fn_params f)"
    and "param_type_name p \<notin> set (type_list_of tds)"
  shows "\<exists>f' p'. f' \<in> set fns \<and> p' \<in> set (fn_params f') \<and>
      param_type_name p' \<notin> set (type_list_of tds) \<and>
      fst (generate e tds fns w) = Inl (Exception (bad_type_message (param_type_name p') f')) \<and>
      exit_status (fst (generate e tds fns w)) = 1 \<and>
      snd (snd (generate e tds fns w)) = w \<and>
      sublist (param_type_name p') (bad_type_message (param_type_name p') f') \<and>
      sublist (repr_str (fn_name f')) (bad_type_message (param_type_name p') f') \<and>
      ((\<forall>c\<in>set (fn_name f'). c \<noteq> squote \<and> c \<noteq> backslash \<and>
          32 \<le> (of_char c :: nat) \<and> (of_char c :: nat) < 127) \<longrightarrow>
       sublist (fn_name f') (bad_type_message (param_type_name p') f'))"
proof -
  let ?g0 = "init_globals tds fns"
  have reg: "g_type_list ?g0 = type_list_of tds" and ops: "g_future_functions ?g0 = fns"
    by (simp_all add: init_globals_def)
  from assms have "first_unregistered (type_list_of tds) fns \<noteq> None"
    by (auto simp: first_unregistered_None)
  then obtain f' p' where found: "first_unregistered (type_list_of tds) fns = Some (f', p')"
    by (cases "first_unregistered (type_list_of tds) fns") auto
  from first_unregistered_SomeD [OF found]
  have mem: "f' \<in> set fns \<and> p' \<in> set (fn_params f') \<and>
      param_type_name p' \<notin> set (type_list_of tds)" .
  let ?err = "Exception (bad_type_message (param_type_name p') f')"
  from found reg ops have v: "fst (validate ?g0) = Inl ?err"
    by (simp add: validate_def check_functions_find)
  obtain g1 where "validate ?g0 = (Inl ?err, g1)"
    using v by (cases "validate ?g0") auto
  then have gen: "generate e tds fns w = (Inl ?err, g1, w)"
    by (simp add: generate_def)
  have run: "fst (generate e tds fns w) = Inl ?err \<and>
      exit_status (fst (generate e tds fns w)) = 1 \<and> snd (snd (generate e tds fns w)) = w"
    using gen by (simp add: exit_status_def)
  from mem run sublist_kind [of "param_type_name p'" f'] sublist_name [of f' "param_type_name p'"]
    sublist_plain_name [of f' "param_type_name p'"]
  show ?thesis
    by blast
qed

theorem unregistered_param_halts_witness:
  "fst (generate sample_env typedef_list [ping_frobnicator] empty_world) =
     Inl (Exception
       (''bad type '' @ [CHR 0x22] @ ''frobnicator_ptr'' @ [CHR 0x22, CHR 0x0A, CHR 0x0A] @
        ''in future_function(ret_type='' @ [CHR 0x27] @ ''bool'' @ [CHR 0x27] @
        '', name='' @ [CHR 0x27] @ ''ping'' @ [CHR 0x27] @
        '', params=[param(type_name='' @ [CHR 0x27] @ ''frobnicator_ptr'' @ [CHR 0x27] @
        '', name='' @ [CHR 0x27] @ ''msg'' @ [CHR 0x27] @ '')])'')) \<and>
   exit_status (fst (generate sample_env typedef_list [ping_frobnicator] empty_world)) = 1 \<and>
   snd (snd (generate sample_env typedef_list [ping_frobnicator] empty_world)) = empty_world \<and>
   sublist ''frobnicator_ptr'' (bad_type_message ''frobnicator_ptr'' ping_frobnicator) \<and>
   sublist ''ping'' (bad_type_message ''frobnicator_ptr'' ping_frobnicator)"
proof -
  have in_list: "ping_frobnicator \<in> set [ping_frobnicator]"
    by simp
  have in_params: "mk_param ''frobnicator_ptr'' ''msg'' \<in> set (fn_params ping_frobnicator)"
    by (simp add: ping_frobnicator_def mk_future_function_def)
  have unreg: "param_type_name (mk_param ''frobnicator_ptr'' ''msg'') \<notin>
      set (type_list_of typedef_list)"
    by (simp add: type_list_of_def typedef_list_def mk_typedef_def mk_param_def)
  from unregistered_param_halts [OF in_list in_params unreg, of sample_env empty_world]
  obtain f' p' where fp: "f' \<in> set [ping_frobnicator]" "p' \<in> set (fn_params f')"
    and run: "fst (generate sample_env typedef_list [ping_frobnicator] empty_world) =
        Inl (Exception (bad_type_message (param_type_name p') f'))"
      "exit_status (fst (generate sample_env typedef_list [ping_frobnicator] empty_world)) = 1"
      "snd (snd (generate sample_env typedef_list [ping_frobnicator] empty_world)) = empty_world"
    and sub: "sublist (param_type_name p') (bad_type_message (param_type_name p') f')"
      "(\<forall>c\<in>set (fn_name f'). c \<noteq> squote \<and> c \<noteq> backslash \<and>
          32 \<le> (of_char c :: nat) \<and> (of_char c :: nat) < 127) \<longrightarrow>
       sublist (fn_name f') (bad_type_message (param_type_name p') f')"
    by blast
  from fp have f': "f' = ping_frobnicator" by simp
  with fp have p': "param_type_name p' = ''frobnicator_ptr''"
    by (simp add: ping_frobnicator_def mk_future_function_def mk_param_def)
  have name: "fn_name ping_frobnicator = ''ping''"
    by (simp add: ping_frobnicator_def mk_future_function_def)
  have "\<forall>c\<in>set (fn_name ping_frobnicator). c \<noteq> squote \<and> c \<noteq> backslash \<and>
          32 \<le> (of_char c :: nat) \<and> (of_char c :: nat) < 127"
    by (simp add: name squote_def backslash_def)
  with sub f' p' name
  have "sublist ''frobnicator_ptr'' (bad_type_message ''frobnicator_ptr'' ping_frobnicator)"
    and "sublist ''ping'' (bad_type_message ''frobnicator_ptr'' ping_frobnicator)"
    by simp_all
  with run f' p' ping_message show ?thesis
    by simp
qed

text \<open>
  C4. When every operation of the list has its return kind and all its parameter kinds
  in the registry, validation raises nothing and the run goes on to the emission loop
  over the six files, with the header comment and the file list set.
\<close>

theorem registered_kinds_proceed:
  assumes "\<forall>f\<in>set fns. fn_ret_type f \<in> set (type_list_of tds) \<and>
      (\<forall>p\<in>set (fn_params f). param_type_name p \<in> set (type_list_of tds))"
  shows "fst (validate (init_globals tds fns)) = Inr () \<and>
      generate e tds fns w =
        emit e files (before_emission e (snd (validate (init_globals tds fns)))) w"
proof -
  let ?g0 = "init_globals tds fns"
  have reg: "g_type_list ?g0 = type_list_of tds" and ops: "g_future_functions ?g0 = fns"
    by (simp_all add: init_globals_def)
  from assms have "first_unregistered (type_list_of tds) fns = None"
    by (simp add: first_unregistered_None)
  with reg ops have v: "fst (validate ?g0) = Inr ()"
    by (simp add: validate_def check_functions_find)
  then obtain g1 where "validate ?g0 = (Inr (), g1)"
    by (cases "validate ?g0") auto
  with v show ?thesis by (simp add: generate_def)
qed

theorem registered_kinds_proceed_witness:
  "fst (validate (init_globals typedef_list future_functions)) = Inr () \<and>
   generate sample_env typedef_list future_functions empty_world =
     emit sample_env files
       (before_emission sample_env (snd (validate (init_globals typedef_list future_functions))))
       empty_world"
  using registered_kinds_proceed [of future_functions typedef_list sample_env empty_world]
  by (simp add: type_list_of_def typedef_list_def future_functions_def mk_typedef_def
      mk_param_def mk_future_function_def)

text \<open>
  C5, as the claim states it, fails: a registry that holds the name \<^verbatim>\<open>bool\<close> twice is
  not refused. Validation succeeds and all six files are emitted.
\<close>

theorem duplicate_registry_accepted:
  "\<not> distinct (type_list_of bool_twice) \<and>
   fst (validate (init_globals bool_twice [ping_flag])) = Inr () \<and>
   fst (generate sample_env bool_twice [ping_flag] full_world) = Inr () \<and>
   w_stdout (snd (snd (generate sample_env bool_twice [ping_flag] full_world))) = files"
  by (simp add: validate_def generate_def init_globals_def type_list_of_def
      mk_typedef_def mk_param_def mk_future_function_def
      before_emission_def files_def template_dir_def mock_server_dir_def joinpath_def Let_def
      sample_env_def full_world_def ping_flag_def bool_twice_def)

text \<open>
  C5, amended. The generator has no check for a repeated name and does not abort on
  one. The registry is consulted by membership of a name only, so a run with a registry
  that repeats names has exactly the validation outcome of any registry with the same
  set of names: when that outcome is an error the run ends with it and the world
  untouched, and otherwise the run is the emission loop over the six files, with the
  registry as given in the globals. The registry written in the script has no
  repeated name.
\<close>

theorem duplicates_not_detected:
  assumes "set (type_list_of tds) = set (type_list_of tds')"
  shows "fst (validate (init_globals tds fns)) = fst (validate (init_globals tds' fns)) \<and>
      generate e tds fns w =
        (case fst (validate (init_globals tds' fns)) of
           Inl err \<Rightarrow> (Inl err, snd (validate (init_globals tds fns)), w)
         | Inr u \<Rightarrow>
             emit e files (before_emission e (snd (validate (init_globals tds fns)))) w) \<and>
      distinct type_list"
proof -
  have "first_unregistered (type_list_of tds) fns = first_unregistered (type_list_of tds') fns"
    using assms by (simp add: first_unregistered_def)
  then have same: "fst (validate (init_globals tds fns)) = fst (validate (init_globals tds' fns))"
    by (simp add: validate_def check_functions_find init_globals_def)
  have names: "distinct type_list"
    by (simp add: type_list_def type_list_of_def typedef_list_def mk_typedef_def)
  obtain r g1 where v: "validate (init_globals tds fns) = (r, g1)"
    by (cases "validate (init_globals tds fns)")
  with same have r: "fst (validate (init_globals tds' fns)) = r" by simp
  have run: "generate e tds fns w =
        (case fst (validate (init_globals tds' fns)) of
           Inl err \<Rightarrow> (Inl err, snd (validate (init_globals tds fns)), w)
         | Inr u \<Rightarrow>
             emit e files (before_emission e (snd (validate (init_globals tds fns)))) w)"
  proof (cases r)
    case (Inl err)
    with v r show ?thesis by (simp add: generate_def)
  next
    case (Inr u)
    with v r show ?thesis by (simp add: generate_def)
  qed
  from same run names show ?thesis by blast
qed

theorem duplicates_not_detected_witness:
  "fst (validate (init_globals bool_twice [ping_flag])) =
     fst (validate (init_globals [mk_typedef ''bool'' None] [ping_flag])) \<and>
   fst (validate (init_globals [mk_typedef ''bool'' None] [ping_flag])) = Inr () \<and>
   generate sample_env bool_twice [ping_flag] full_world =
     emit sample_env files
       (before_emission sample_env (snd (validate (init_globals bool_twice [ping_flag]))))
       full_world"
  using duplicates_not_detected [of bool_twice "[mk_typedef ''bool'' None]" "[ping_flag]"
      sample_env full_world]
  by (simp add: type_list_of_def mk_typedef_def bool_twice_def validate_def init_globals_def
      ping_flag_def mk_future_function_def mk_param_def)

text \<open>
  C1. The claim asks that an unregistered return kind fail validation. The loop of
  lines 111-114 walks \<^verbatim>\<open>fn.params\<close> only: an operation whose parameters are registered
  and whose return kind \<^verbatim>\<open>int64_t\<close> is not passes validation.
\<close>

theorem validate_skips_ret_type:
  "fn_ret_type collection_count \<notin> set (type_list_of typedef_list) \<and>
   fst (validate (init_globals typedef_list [collection_count])) = Inr ()"
  by (simp add: validate_def init_globals_def type_list_of_def typedef_list_def
      mk_typedef_def mk_param_def mk_future_function_def collection_count_def)

end
